theory Spec2Isabelle
  imports Main "HOL-Library.AList"
begin

section \<open>Go primitives used by the editor\<close>

text \<open>
  The editor is written in Go.  A run-time panic (an index or a slice bound out of range,
  a nil dereference, a negative capacity given to \<^verbatim>\<open>make\<close>, a recursion that never ends)
  ends the call without a result;
  no function of the repository recovers from one.  A function that can panic returns
  \<open>panic + 'a\<close>, with \<open>Inl\<close> for the panic.
\<close>

datatype panic =
  IndexOutOfRange
  | SliceBoundsOutOfRange
  | MakeSliceCapOutOfRange
  | NilPointerDereference
  | StackOverflow

definition bindP :: "panic + 'a \<Rightarrow> ('a \<Rightarrow> panic + 'b) \<Rightarrow> panic + 'b" where
  "bindP m f = (case m of Inl e \<Rightarrow> Inl e | Inr v \<Rightarrow> f v)"

text \<open>
  Go's \<^verbatim>\<open>int\<close> is a 64-bit two's-complement integer on the platforms the editor targets.
  Values are kept as \<open>int\<close>; \<open>i64\<close> is the wrap-around applied by \<^verbatim>\<open>+\<close> and \<^verbatim>\<open>-\<close>,
  and \<open>int64\<close> says that a value is one a Go \<^verbatim>\<open>int\<close> can hold.
\<close>

definition i64 :: "int \<Rightarrow> int" where
  "i64 x = (x + 2 ^ 63) mod 2 ^ 64 - 2 ^ 63"

definition int64 :: "int \<Rightarrow> bool" where
  "int64 x = (- (2 ^ 63) \<le> x \<and> x < 2 ^ 63)"

definition len :: "'a list \<Rightarrow> int" where
  "len xs = int (length xs)"

text \<open>\<^verbatim>\<open>s[i]\<close>, \<^verbatim>\<open>s[:hi]\<close> and \<^verbatim>\<open>s[lo:]\<close> on a string or a slice.  Strings are byte
  sequences, as Go indexes them.  The capacity of a slice is not modelled: \<^verbatim>\<open>s[:hi]\<close> is
  checked against the length.\<close>

definition index_at :: "'a list \<Rightarrow> int \<Rightarrow> panic + 'a" where
  "index_at s i = (if 0 \<le> i \<and> i < len s then Inr (s ! nat i) else Inl IndexOutOfRange)"

definition slice_to :: "'a list \<Rightarrow> int \<Rightarrow> panic + 'a list" where
  "slice_to s hi =
     (if 0 \<le> hi \<and> hi \<le> len s then Inr (take (nat hi) s) else Inl SliceBoundsOutOfRange)"

definition slice_from :: "'a list \<Rightarrow> int \<Rightarrow> panic + 'a list" where
  "slice_from s lo =
     (if 0 \<le> lo \<and> lo \<le> len s then Inr (drop (nat lo) s) else Inl SliceBoundsOutOfRange)"

text \<open>\<^verbatim>\<open>strings.Split(s, sep)\<close> for a one-byte separator: the pieces between the
  separators, one more piece than there are separators.\<close>

fun Split :: "string \<Rightarrow> char \<Rightarrow> string list" where
  "Split [] sep = [[]]"
| "Split (c # cs) sep =
     (if c = sep then [] # Split cs sep
      else (case Split cs sep of [] \<Rightarrow> [[c]] | w # ws \<Rightarrow> (c # w) # ws))"

definition newline :: char where
  "newline = CHR 0x0A"

section \<open>Text buffer: \<^verbatim>\<open>src/editor/commands.go\<close>\<close>

text \<open>The fields of \<^verbatim>\<open>TextEditor\<close> that the commands read and write.\<close>

record TextEditor =
  lines :: "string list"
  isModified :: bool

subsection \<open>InsertCommand\<close>

record InsertCommand =
  line :: int
  col :: int
  "text" :: string
  prevLine :: string
  splitLines :: "string list"
  executed :: bool

definition NewInsertCommand :: "int \<Rightarrow> int \<Rightarrow> string \<Rightarrow> InsertCommand" where
  "NewInsertCommand l c t =
     \<lparr> line = l, col = c, text = t, prevLine = [], splitLines = [], executed = False \<rparr>"

definition InsertCommand_validate :: "TextEditor \<Rightarrow> InsertCommand \<Rightarrow> bool" where
  "InsertCommand_validate te cmd =
     (let lineCount = len (TextEditor.lines te) in
      if lineCount = 0 then InsertCommand.line cmd = 1 \<and> InsertCommand.col cmd = 1
      else if InsertCommand.line cmd < 1 \<or> InsertCommand.line cmd > lineCount then False
      else
        (let targetLine = TextEditor.lines te ! nat (i64 (InsertCommand.line cmd - 1))
         in InsertCommand.col cmd \<ge> 1 \<and> InsertCommand.col cmd \<le> i64 (len targetLine + 1)))"

definition InsertCommand_Execute ::
  "TextEditor \<Rightarrow> InsertCommand \<Rightarrow> panic + (TextEditor \<times> InsertCommand)" where
  "InsertCommand_Execute te cmd =
     (if \<not> InsertCommand_validate te cmd then Inr (te, cmd)
      else
        (let lineIdx = i64 (InsertCommand.line cmd - 1);
             colIdx = i64 (InsertCommand.col cmd - 1)
         in
         bindP (index_at (TextEditor.lines te) lineIdx) (\<lambda>prev.
         let parts = Split (InsertCommand.text cmd) newline;
             cmd1 = cmd \<lparr> prevLine := prev, splitLines := parts \<rparr>
         in
         bindP (slice_to prev colIdx) (\<lambda>before.
         bindP (slice_from prev colIdx) (\<lambda>after.
         if len parts = 1 then
           Inr (te \<lparr> TextEditor.lines :=
                       (TextEditor.lines te) [nat lineIdx := before @ InsertCommand.text cmd @ after],
                     TextEditor.isModified := True \<rparr>,
                cmd1 \<lparr> executed := True \<rparr>)
         else
           (let firstPart = before @ hd parts;
                middleParts = butlast (tl parts);
                lastPart = last parts @ after
            in
            bindP (slice_to (TextEditor.lines te) lineIdx) (\<lambda>above.
            bindP (slice_from (TextEditor.lines te) (i64 (lineIdx + 1))) (\<lambda>below.
            Inr (te \<lparr> TextEditor.lines := above @ [firstPart] @ middleParts @ [lastPart] @ below,
                      TextEditor.isModified := True \<rparr>,
                 cmd1 \<lparr> executed := True \<rparr>)))))))))"

definition InsertCommand_Undo ::
  "TextEditor \<Rightarrow> InsertCommand \<Rightarrow> panic + (TextEditor \<times> InsertCommand)" where
  "InsertCommand_Undo te cmd =
     (if \<not> InsertCommand.executed cmd then Inr (te, cmd)
      else
        (let lineIdx = i64 (InsertCommand.line cmd - 1) in
         if len (splitLines cmd) = 1 then
           (if 0 \<le> lineIdx \<and> lineIdx < len (TextEditor.lines te)
            then Inr (te \<lparr> TextEditor.lines := (TextEditor.lines te) [nat lineIdx := prevLine cmd],
                           TextEditor.isModified := True \<rparr>, cmd)
            else Inl IndexOutOfRange)
         else
           (let removeCount = i64 (len (splitLines cmd) - 1) in
            if i64 (len (TextEditor.lines te) - removeCount) < 0 then Inl MakeSliceCapOutOfRange
            else
              bindP (slice_to (TextEditor.lines te) lineIdx) (\<lambda>above.
              bindP (slice_from (TextEditor.lines te) (i64 (i64 (lineIdx + 1) + removeCount)))
                (\<lambda>below.
              Inr (te \<lparr> TextEditor.lines := above @ [prevLine cmd] @ below,
                        TextEditor.isModified := True \<rparr>, cmd))))))"

definition InsertCommand_IsExecuted :: "InsertCommand \<Rightarrow> bool" where
  "InsertCommand_IsExecuted cmd = InsertCommand.executed cmd"

subsection \<open>DeleteCommand\<close>

record DeleteCommand =
  line :: int
  col :: int
  length' :: int
  prevLine :: string
  executed :: bool

definition NewDeleteCommand :: "int \<Rightarrow> int \<Rightarrow> int \<Rightarrow> DeleteCommand" where
  "NewDeleteCommand l c n =
     \<lparr> line = l, col = c, length' = n, prevLine = [], executed = False \<rparr>"

definition DeleteCommand_validate :: "TextEditor \<Rightarrow> DeleteCommand \<Rightarrow> bool" where
  "DeleteCommand_validate te cmd =
     (let lineCount = len (TextEditor.lines te) in
      if DeleteCommand.line cmd < 1 \<or> DeleteCommand.line cmd > lineCount then False
      else
        (let targetLine = TextEditor.lines te ! nat (i64 (DeleteCommand.line cmd - 1));
             lineLen = len targetLine;
             colIdx = i64 (DeleteCommand.col cmd - 1)
         in
         if colIdx < 0 \<or> colIdx \<ge> lineLen \<or> length' cmd \<le> 0 then False
         else if i64 (colIdx + length' cmd) > lineLen then False
         else True))"

definition DeleteCommand_Execute ::
  "TextEditor \<Rightarrow> DeleteCommand \<Rightarrow> panic + (TextEditor \<times> DeleteCommand)" where
  "DeleteCommand_Execute te cmd =
     (if \<not> DeleteCommand_validate te cmd then Inr (te, cmd)
      else
        (let lineIdx = i64 (DeleteCommand.line cmd - 1);
             colIdx = i64 (DeleteCommand.col cmd - 1)
         in
         bindP (index_at (TextEditor.lines te) lineIdx) (\<lambda>prev.
         bindP (slice_to prev colIdx) (\<lambda>before.
         bindP (slice_from prev (i64 (colIdx + length' cmd))) (\<lambda>after.
         Inr (te \<lparr> TextEditor.lines := (TextEditor.lines te) [nat lineIdx := before @ after],
                   TextEditor.isModified := True \<rparr>,
              cmd \<lparr> DeleteCommand.prevLine := prev, DeleteCommand.executed := True \<rparr>))))))"

definition DeleteCommand_Undo ::
  "TextEditor \<Rightarrow> DeleteCommand \<Rightarrow> panic + (TextEditor \<times> DeleteCommand)" where
  "DeleteCommand_Undo te cmd =
     (if \<not> DeleteCommand.executed cmd then Inr (te, cmd)
      else
        (let lineIdx = i64 (DeleteCommand.line cmd - 1) in
         if 0 \<le> lineIdx \<and> lineIdx < len (TextEditor.lines te)
         then Inr (te \<lparr> TextEditor.lines :=
                          (TextEditor.lines te) [nat lineIdx := DeleteCommand.prevLine cmd],
                        TextEditor.isModified := True \<rparr>, cmd)
         else Inl IndexOutOfRange))"

definition DeleteCommand_IsExecuted :: "DeleteCommand \<Rightarrow> bool" where
  "DeleteCommand_IsExecuted cmd = DeleteCommand.executed cmd"

subsection \<open>ReplaceCommand\<close>

record ReplaceCommand =
  line :: int
  col :: int
  length' :: int
  "text" :: string
  deleteCmd :: DeleteCommand
  insertCmd :: InsertCommand
  executed :: bool

definition NewReplaceCommand :: "int \<Rightarrow> int \<Rightarrow> int \<Rightarrow> string \<Rightarrow> ReplaceCommand" where
  "NewReplaceCommand l c n t =
     \<lparr> line = l, col = c, length' = n, text = t,
       deleteCmd = NewDeleteCommand l c n,
       insertCmd = NewInsertCommand l c t,
       executed = False \<rparr>"

definition ReplaceCommand_Execute ::
  "TextEditor \<Rightarrow> ReplaceCommand \<Rightarrow> panic + (TextEditor \<times> ReplaceCommand)" where
  "ReplaceCommand_Execute te cmd =
     bindP (DeleteCommand_Execute te (deleteCmd cmd)) (\<lambda>(te1, d1).
     if \<not> DeleteCommand_IsExecuted d1 then Inr (te1, cmd \<lparr> deleteCmd := d1 \<rparr>)
     else
       bindP (InsertCommand_Execute te1 (insertCmd cmd)) (\<lambda>(te2, i2).
       Inr (te2, cmd \<lparr> deleteCmd := d1, insertCmd := i2,
                       ReplaceCommand.executed := InsertCommand_IsExecuted i2 \<rparr>)))"

definition ReplaceCommand_Undo ::
  "TextEditor \<Rightarrow> ReplaceCommand \<Rightarrow> panic + (TextEditor \<times> ReplaceCommand)" where
  "ReplaceCommand_Undo te cmd =
     (if \<not> ReplaceCommand.executed cmd then Inr (te, cmd)
      else
        bindP (InsertCommand_Undo te (insertCmd cmd)) (\<lambda>(te1, i1).
        bindP (DeleteCommand_Undo te1 (deleteCmd cmd)) (\<lambda>(te2, d2).
        Inr (te2 \<lparr> TextEditor.isModified := True \<rparr>,
             cmd \<lparr> deleteCmd := d2, insertCmd := i1 \<rparr>))))"

definition ReplaceCommand_IsExecuted :: "ReplaceCommand \<Rightarrow> bool" where
  "ReplaceCommand_IsExecuted cmd = ReplaceCommand.executed cmd"

section \<open>XML tree: \<^verbatim>\<open>src/editor/xml_editor.go\<close>\<close>

text \<open>
  Elements are heap objects that the tree, the identifier index and the commands share by
  pointer.  A pointer is an address; \<open>None\<close> is \<^verbatim>\<open>nil\<close>.  The heap gives every address an
  element (Go has no dangling pointers); \<open>nextAddr\<close> is the first address not yet allocated.
  The attribute map is an association list with unique keys; its order stands for the order
  in which this run of the program iterates over the map.
\<close>

type_synonym addr = nat

record XMLElement =
  tag :: string
  id' :: string
  attrs :: "(string \<times> string) list"
  "text" :: string
  parent :: "addr option"
  children :: "addr list"

type_synonym heap = "addr \<Rightarrow> XMLElement"

text \<open>\<^verbatim>\<open>strings.ReplaceAll\<close> for a one-byte pattern, and \<^verbatim>\<open>escapeXML\<close>.\<close>

definition ReplaceAll :: "string \<Rightarrow> char \<Rightarrow> string \<Rightarrow> string" where
  "ReplaceAll s old new = concat (map (\<lambda>c. if c = old then new else [c]) s)"

definition escapeXML :: "string \<Rightarrow> string" where
  "escapeXML s0 =
     (let s1 = ReplaceAll s0 (CHR ''&'') ''&amp;'';
          s2 = ReplaceAll s1 (CHR ''<'') ''&lt;'';
          s3 = ReplaceAll s2 (CHR ''>'') ''&gt;'';
          s4 = ReplaceAll s3 (CHR 0x22) ''&quot;'';
          s5 = ReplaceAll s4 (CHR 0x27) ''&apos;''
      in s5)"

subsection \<open>Command objects\<close>

record InsertBeforeCommand =
  tag :: string
  newId :: string
  targetId :: string
  "text" :: string
  insertedElem :: "addr option"
  success :: bool

record AppendChildCommand =
  tag :: string
  newId :: string
  parentId :: string
  "text" :: string
  insertedElem :: "addr option"
  success :: bool

record EditIdCommand =
  oldId :: string
  newId :: string
  prevId :: string
  success :: bool

record EditTextCommand =
  elementId :: string
  "text" :: string
  prevText :: string
  success :: bool

record XmlDeleteCommand =
  elementId :: string
  deletedElem :: "addr option"
  parentElem :: "addr option"
  index :: int
  success :: bool
  deletedIdMap :: "(string \<rightharpoonup> addr) option"

datatype Command =
  InsertBefore InsertBeforeCommand
  | AppendChild AppendChildCommand
  | EditId EditIdCommand
  | EditText EditTextCommand
  | XmlDelete XmlDeleteCommand

record XmlEditor =
  heap :: heap
  nextAddr :: addr
  root :: "addr option"
  idMap :: "string \<rightharpoonup> addr"
  isModified :: bool
  undoStack :: "Command list"
  redoStack :: "Command list"

text \<open>
  The recursive walks over the tree take the number of allocated elements (plus one) as the
  bound of their recursion depth: a tree never is deeper than it has elements, so the bound is
  reached only on a cyclic structure, where the Go recursion does not end.
\<close>

definition depthBound :: "XmlEditor \<Rightarrow> nat" where
  "depthBound x = Suc (nextAddr x)"

text \<open>The loops that look for a child's position, by identifier and by pointer; \<open>-1\<close> when
  no child matches.\<close>

fun indexOfId :: "heap \<Rightarrow> addr list \<Rightarrow> string \<Rightarrow> int \<Rightarrow> int" where
  "indexOfId h [] k i = -1"
| "indexOfId h (c # cs) k i = (if id' (h c) = k then i else indexOfId h cs k (i + 1))"

fun indexOfElem :: "addr list \<Rightarrow> addr \<Rightarrow> int \<Rightarrow> int" where
  "indexOfElem [] a i = -1"
| "indexOfElem (c # cs) a i = (if c = a then i else indexOfElem cs a (i + 1))"

definition insertAt :: "'a list \<Rightarrow> int \<Rightarrow> 'a \<Rightarrow> 'a list" where
  "insertAt xs i v = take (nat i) xs @ [v] @ drop (nat i) xs"

definition removeAt :: "'a list \<Rightarrow> int \<Rightarrow> 'a list" where
  "removeAt xs i = take (nat i) xs @ drop (nat i + 1) xs"

subsection \<open>InsertBeforeCommand\<close>

definition NewInsertBeforeCommand ::
  "string \<Rightarrow> string \<Rightarrow> string \<Rightarrow> string \<Rightarrow> InsertBeforeCommand" where
  "NewInsertBeforeCommand tg nid tid txt =
     \<lparr> InsertBeforeCommand.tag = tg, InsertBeforeCommand.newId = nid, targetId = tid,
       InsertBeforeCommand.text = txt, InsertBeforeCommand.insertedElem = None,
       InsertBeforeCommand.success = False \<rparr>"

definition InsertBeforeCommand_Execute ::
  "XmlEditor \<Rightarrow> InsertBeforeCommand \<Rightarrow> XmlEditor \<times> InsertBeforeCommand" where
  "InsertBeforeCommand_Execute x c =
     (case idMap x (InsertBeforeCommand.newId c) of
        Some _ \<Rightarrow> (x, c)
      | None \<Rightarrow>
         (case idMap x (targetId c) of
            None \<Rightarrow> (x, c)
          | Some targetElem \<Rightarrow>
             (case parent (heap x targetElem) of
                None \<Rightarrow> (x, c)
              | Some p \<Rightarrow>
                 (let idx = indexOfId (heap x) (children (heap x p)) (targetId c) 0 in
                  if idx = -1 then (x, c)
                  else
                    (let newElem = nextAddr x;
                         e = \<lparr> XMLElement.tag = InsertBeforeCommand.tag c,
                               id' = InsertBeforeCommand.newId c,
                               attrs = [(''id'', escapeXML (InsertBeforeCommand.newId c))],
                               XMLElement.text = InsertBeforeCommand.text c,
                               parent = Some p, children = [] \<rparr>;
                         h1 = (heap x) (newElem := e);
                         h2 = h1 (p := (h1 p) \<lparr> children := insertAt (children (h1 p)) idx newElem \<rparr>)
                     in (x \<lparr> heap := h2, nextAddr := Suc newElem,
                              idMap := (idMap x) (InsertBeforeCommand.newId c \<mapsto> newElem),
                              XmlEditor.isModified := True \<rparr>,
                         c \<lparr> InsertBeforeCommand.insertedElem := Some newElem,
                              InsertBeforeCommand.success := True \<rparr>))))))"

text \<open>The undo shared, line for line, by \<^verbatim>\<open>InsertBeforeCommand.Undo\<close> and
  \<^verbatim>\<open>AppendChildCommand.Undo\<close>: the element is looked for among the children of its parent by
  the identifier \<^verbatim>\<open>newId\<close>, and the index entry of \<^verbatim>\<open>newId\<close> is deleted whether or not a child
  was removed.\<close>

definition removeInserted :: "XmlEditor \<Rightarrow> addr \<Rightarrow> string \<Rightarrow> XmlEditor option" where
  "removeInserted x inserted nid =
     (case parent (heap x inserted) of
        None \<Rightarrow> None
      | Some p \<Rightarrow>
         (let idx = indexOfId (heap x) (children (heap x p)) nid 0;
              h1 = (if idx \<noteq> -1
                    then (heap x) (p := (heap x p) \<lparr> children := removeAt (children (heap x p)) idx \<rparr>)
                    else heap x)
          in Some (x \<lparr> heap := h1, idMap := (idMap x) (nid := None),
                       XmlEditor.isModified := True \<rparr>)))"

definition InsertBeforeCommand_Undo ::
  "XmlEditor \<Rightarrow> InsertBeforeCommand \<Rightarrow> XmlEditor \<times> InsertBeforeCommand" where
  "InsertBeforeCommand_Undo x c =
     (if \<not> InsertBeforeCommand.success c then (x, c)
      else
        (case InsertBeforeCommand.insertedElem c of
           None \<Rightarrow> (x, c)
         | Some inserted \<Rightarrow>
            (case removeInserted x inserted (InsertBeforeCommand.newId c) of
               None \<Rightarrow> (x, c)
             | Some x1 \<Rightarrow> (x1, c \<lparr> InsertBeforeCommand.success := False \<rparr>))))"

subsection \<open>AppendChildCommand\<close>

definition NewAppendChildCommand ::
  "string \<Rightarrow> string \<Rightarrow> string \<Rightarrow> string \<Rightarrow> AppendChildCommand" where
  "NewAppendChildCommand tg nid pid txt =
     \<lparr> AppendChildCommand.tag = tg, AppendChildCommand.newId = nid, parentId = pid,
       AppendChildCommand.text = txt, AppendChildCommand.insertedElem = None,
       AppendChildCommand.success = False \<rparr>"

fun findNodeById :: "nat \<Rightarrow> heap \<Rightarrow> addr option \<Rightarrow> string \<Rightarrow> panic + addr option"
  and findNodeById_children :: "nat \<Rightarrow> heap \<Rightarrow> addr list \<Rightarrow> string \<Rightarrow> panic + addr option"
  where
  "findNodeById 0 h node k = Inl StackOverflow"
| "findNodeById (Suc d) h None k = Inr None"
| "findNodeById (Suc d) h (Some a) k =
     (if id' (h a) = k then Inr (Some a) else findNodeById_children d h (children (h a)) k)"
| "findNodeById_children d h [] k = Inr None"
| "findNodeById_children d h (c # cs) k =
     (case findNodeById d h (Some c) k of
        Inl e \<Rightarrow> Inl e
      | Inr (Some found) \<Rightarrow> Inr (Some found)
      | Inr None \<Rightarrow> findNodeById_children d h cs k)"

definition appendNewChild :: "XmlEditor \<Rightarrow> AppendChildCommand \<Rightarrow> addr \<Rightarrow> XmlEditor \<times> AppendChildCommand"
  where
  "appendNewChild x c par =
     (case idMap x (AppendChildCommand.newId c) of
        Some _ \<Rightarrow> (x, c)
      | None \<Rightarrow>
         (let newElem = nextAddr x;
              e = \<lparr> XMLElement.tag = AppendChildCommand.tag c,
                    id' = AppendChildCommand.newId c,
                    attrs = [(''id'', AppendChildCommand.newId c)],
                    XMLElement.text = AppendChildCommand.text c,
                    parent = Some par, children = [] \<rparr>;
              h1 = (heap x) (newElem := e);
              h2 = h1 (par :=
                         (h1 par) \<lparr> children := children (h1 par) @ [newElem] \<rparr>)
          in (x \<lparr> heap := h2, nextAddr := Suc newElem,
                   idMap := (idMap x) (AppendChildCommand.newId c \<mapsto> newElem),
                   XmlEditor.isModified := True \<rparr>,
              c \<lparr> AppendChildCommand.insertedElem := Some newElem,
                   AppendChildCommand.success := True \<rparr>)))"

definition AppendChildCommand_Execute ::
  "XmlEditor \<Rightarrow> AppendChildCommand \<Rightarrow> panic + (XmlEditor \<times> AppendChildCommand)" where
  "AppendChildCommand_Execute x c =
     (case idMap x (parentId c) of
        Some par \<Rightarrow> Inr (appendNewChild x c par)
      | None \<Rightarrow>
         bindP (findNodeById (depthBound x) (heap x) (root x) (parentId c)) (\<lambda>parentNode.
         case parentNode of
           None \<Rightarrow> Inr (x, c \<lparr> AppendChildCommand.success := False \<rparr>)
         | Some par \<Rightarrow> Inr (appendNewChild x c par)))"

definition AppendChildCommand_Undo ::
  "XmlEditor \<Rightarrow> AppendChildCommand \<Rightarrow> XmlEditor \<times> AppendChildCommand" where
  "AppendChildCommand_Undo x c =
     (if \<not> AppendChildCommand.success c then (x, c)
      else
        (case AppendChildCommand.insertedElem c of
           None \<Rightarrow> (x, c)
         | Some inserted \<Rightarrow>
            (case removeInserted x inserted (AppendChildCommand.newId c) of
               None \<Rightarrow> (x, c)
             | Some x1 \<Rightarrow> (x1, c \<lparr> AppendChildCommand.success := False \<rparr>))))"

subsection \<open>EditIdCommand\<close>

definition NewEditIdCommand :: "string \<Rightarrow> string \<Rightarrow> EditIdCommand" where
  "NewEditIdCommand old new =
     \<lparr> oldId = old, EditIdCommand.newId = new, prevId = [], EditIdCommand.success = False \<rparr>"

definition EditIdCommand_Execute :: "XmlEditor \<Rightarrow> EditIdCommand \<Rightarrow> XmlEditor \<times> EditIdCommand" where
  "EditIdCommand_Execute x c =
     (case idMap x (oldId c) of
        None \<Rightarrow> (x, c)
      | Some elem \<Rightarrow>
         if Some elem = root x then (x, c \<lparr> EditIdCommand.success := False \<rparr>)
         else
           (case idMap x (EditIdCommand.newId c) of
              Some _ \<Rightarrow> (x, c)
            | None \<Rightarrow>
               (let c1 = c \<lparr> prevId := id' (heap x elem) \<rparr>;
                    m1 = (idMap x) (oldId c := None);
                    h1 = (heap x) (elem := (heap x elem) \<lparr> id' := EditIdCommand.newId c \<rparr>);
                    m2 = m1 (EditIdCommand.newId c \<mapsto> elem)
                in (x \<lparr> heap := h1, idMap := m2, XmlEditor.isModified := True \<rparr>,
                    c1 \<lparr> EditIdCommand.success := True \<rparr>))))"

definition EditIdCommand_Undo :: "XmlEditor \<Rightarrow> EditIdCommand \<Rightarrow> XmlEditor \<times> EditIdCommand" where
  "EditIdCommand_Undo x c =
     (if \<not> EditIdCommand.success c \<or> prevId c = [] then (x, c)
      else
        (case idMap x (EditIdCommand.newId c) of
           None \<Rightarrow> (x, c)
         | Some elem \<Rightarrow>
            (let m1 = (idMap x) (EditIdCommand.newId c := None);
                 h1 = (heap x) (elem := (heap x elem) \<lparr> id' := prevId c \<rparr>);
                 m2 = m1 (prevId c \<mapsto> elem)
             in (x \<lparr> heap := h1, idMap := m2, XmlEditor.isModified := True \<rparr>,
                 c \<lparr> EditIdCommand.success := False \<rparr>))))"

subsection \<open>EditTextCommand\<close>

definition NewEditTextCommand :: "string \<Rightarrow> string \<Rightarrow> EditTextCommand" where
  "NewEditTextCommand eid txt =
     \<lparr> EditTextCommand.elementId = eid, EditTextCommand.text = txt, prevText = [],
       EditTextCommand.success = False \<rparr>"

definition EditTextCommand_Execute ::
  "XmlEditor \<Rightarrow> EditTextCommand \<Rightarrow> XmlEditor \<times> EditTextCommand" where
  "EditTextCommand_Execute x c =
     (case idMap x (EditTextCommand.elementId c) of
        None \<Rightarrow> (x, c)
      | Some elem \<Rightarrow>
         (let c1 = c \<lparr> prevText := XMLElement.text (heap x elem) \<rparr>;
              h1 = (heap x) (elem := (heap x elem) \<lparr> XMLElement.text := EditTextCommand.text c \<rparr>)
          in (x \<lparr> heap := h1, XmlEditor.isModified := True \<rparr>,
              c1 \<lparr> EditTextCommand.success := True \<rparr>)))"

definition EditTextCommand_Undo ::
  "XmlEditor \<Rightarrow> EditTextCommand \<Rightarrow> XmlEditor \<times> EditTextCommand" where
  "EditTextCommand_Undo x c =
     (if \<not> EditTextCommand.success c \<or> prevText c = [] then (x, c)
      else
        (case idMap x (EditTextCommand.elementId c) of
           None \<Rightarrow> (x, c)
         | Some elem \<Rightarrow>
            (let h1 = (heap x) (elem := (heap x elem) \<lparr> XMLElement.text := prevText c \<rparr>)
             in (x \<lparr> heap := h1, XmlEditor.isModified := True \<rparr>,
                 c \<lparr> EditTextCommand.success := False \<rparr>))))"

subsection \<open>XmlDeleteCommand\<close>

definition NewXmlDeleteCommand :: "string \<Rightarrow> XmlDeleteCommand" where
  "NewXmlDeleteCommand eid =
     \<lparr> XmlDeleteCommand.elementId = eid, deletedElem = None, parentElem = None,
       index = 0, XmlDeleteCommand.success = False, deletedIdMap = None \<rparr>"

text \<open>Both walks return at once on an element whose identifier is empty, before they
  look at its children.\<close>

fun recursiveSaveNodes ::
    "nat \<Rightarrow> heap \<Rightarrow> addr option \<Rightarrow> (string \<rightharpoonup> addr) \<Rightarrow> panic + (string \<rightharpoonup> addr)"
  and recursiveSaveNodes_children ::
    "nat \<Rightarrow> heap \<Rightarrow> addr list \<Rightarrow> (string \<rightharpoonup> addr) \<Rightarrow> panic + (string \<rightharpoonup> addr)"
  where
  "recursiveSaveNodes 0 h node m = Inl StackOverflow"
| "recursiveSaveNodes (Suc d) h None m = Inr m"
| "recursiveSaveNodes (Suc d) h (Some a) m =
     (if id' (h a) = [] then Inr m
      else recursiveSaveNodes_children d h (children (h a)) (m (id' (h a) \<mapsto> a)))"
| "recursiveSaveNodes_children d h [] m = Inr m"
| "recursiveSaveNodes_children d h (c # cs) m =
     (case recursiveSaveNodes d h (Some c) m of
        Inl e \<Rightarrow> Inl e
      | Inr m1 \<Rightarrow> recursiveSaveNodes_children d h cs m1)"

fun recursiveDeleteIdMap ::
    "nat \<Rightarrow> heap \<Rightarrow> addr option \<Rightarrow> (string \<rightharpoonup> addr) \<Rightarrow> panic + (string \<rightharpoonup> addr)"
  and recursiveDeleteIdMap_children ::
    "nat \<Rightarrow> heap \<Rightarrow> addr list \<Rightarrow> (string \<rightharpoonup> addr) \<Rightarrow> panic + (string \<rightharpoonup> addr)"
  where
  "recursiveDeleteIdMap 0 h node m = Inl StackOverflow"
| "recursiveDeleteIdMap (Suc d) h None m = Inr m"
| "recursiveDeleteIdMap (Suc d) h (Some a) m =
     (if id' (h a) = [] then Inr m
      else
        (case recursiveDeleteIdMap_children d h (children (h a)) m of
           Inl e \<Rightarrow> Inl e
         | Inr m1 \<Rightarrow> Inr (m1 (id' (h a) := None))))"
| "recursiveDeleteIdMap_children d h [] m = Inr m"
| "recursiveDeleteIdMap_children d h (c # cs) m =
     (case recursiveDeleteIdMap d h (Some c) m of
        Inl e \<Rightarrow> Inl e
      | Inr m1 \<Rightarrow> recursiveDeleteIdMap_children d h cs m1)"

definition XmlDeleteCommand_Execute ::
  "XmlEditor \<Rightarrow> XmlDeleteCommand \<Rightarrow> panic + (XmlEditor \<times> XmlDeleteCommand)" where
  "XmlDeleteCommand_Execute x c =
     (case idMap x (XmlDeleteCommand.elementId c) of
        None \<Rightarrow> Inr (x, c)
      | Some elem \<Rightarrow>
         if Some elem = root x then Inr (x, c)
         else
           bindP (recursiveSaveNodes (depthBound x) (heap x) (Some elem) Map.empty) (\<lambda>saved.
           let c1 = c \<lparr> deletedIdMap := Some saved, deletedElem := Some elem,
                         parentElem := parent (heap x elem) \<rparr>
           in
           case parent (heap x elem) of
             None \<Rightarrow> Inl NilPointerDereference
           | Some p \<Rightarrow>
              (let idx = indexOfElem (children (heap x p)) elem 0;
                   c2 = c1 \<lparr> index := idx \<rparr>
               in
               if idx = -1 then Inr (x, c2 \<lparr> XmlDeleteCommand.success := False \<rparr>)
               else
                 (let h1 = (heap x) (p := (heap x p) \<lparr> children := removeAt (children (heap x p)) idx \<rparr>)
                  in
                  bindP (recursiveDeleteIdMap (depthBound x) h1 (Some elem) (idMap x)) (\<lambda>m1.
                  Inr (x \<lparr> heap := h1, idMap := m1, XmlEditor.isModified := True \<rparr>,
                       c2 \<lparr> XmlDeleteCommand.success := True \<rparr>))))))"

definition XmlDeleteCommand_Undo ::
  "XmlEditor \<Rightarrow> XmlDeleteCommand \<Rightarrow> panic + (XmlEditor \<times> XmlDeleteCommand)" where
  "XmlDeleteCommand_Undo x c =
     (case (deletedElem c, parentElem c, deletedIdMap c) of
        (Some elem, Some p, Some saved) \<Rightarrow>
          if \<not> XmlDeleteCommand.success c \<or> index c = -1 then Inr (x, c)
          else if index c < 0 \<or> index c > len (children (heap x p)) then Inl SliceBoundsOutOfRange
          else
            (let h1 = (heap x) (p := (heap x p) \<lparr> children := insertAt (children (heap x p)) (index c) elem \<rparr>)
             in Inr (x \<lparr> heap := h1, idMap := idMap x ++ saved, XmlEditor.isModified := True \<rparr>,
                     c \<lparr> XmlDeleteCommand.success := False \<rparr>))
      | _ \<Rightarrow> Inr (x, c))"

subsection \<open>The editor: executing, undoing and redoing commands\<close>

definition Command_Execute :: "XmlEditor \<Rightarrow> Command \<Rightarrow> panic + (XmlEditor \<times> Command)" where
  "Command_Execute x command =
     (case command of
        InsertBefore c \<Rightarrow> (case InsertBeforeCommand_Execute x c of (x1, c1) \<Rightarrow> Inr (x1, InsertBefore c1))
      | AppendChild c \<Rightarrow>
          bindP (AppendChildCommand_Execute x c) (\<lambda>(x1, c1). Inr (x1, AppendChild c1))
      | EditId c \<Rightarrow> (case EditIdCommand_Execute x c of (x1, c1) \<Rightarrow> Inr (x1, EditId c1))
      | EditText c \<Rightarrow> (case EditTextCommand_Execute x c of (x1, c1) \<Rightarrow> Inr (x1, EditText c1))
      | XmlDelete c \<Rightarrow>
          bindP (XmlDeleteCommand_Execute x c) (\<lambda>(x1, c1). Inr (x1, XmlDelete c1)))"

definition Command_Undo :: "XmlEditor \<Rightarrow> Command \<Rightarrow> panic + (XmlEditor \<times> Command)" where
  "Command_Undo x command =
     (case command of
        InsertBefore c \<Rightarrow> (case InsertBeforeCommand_Undo x c of (x1, c1) \<Rightarrow> Inr (x1, InsertBefore c1))
      | AppendChild c \<Rightarrow> (case AppendChildCommand_Undo x c of (x1, c1) \<Rightarrow> Inr (x1, AppendChild c1))
      | EditId c \<Rightarrow> (case EditIdCommand_Undo x c of (x1, c1) \<Rightarrow> Inr (x1, EditId c1))
      | EditText c \<Rightarrow> (case EditTextCommand_Undo x c of (x1, c1) \<Rightarrow> Inr (x1, EditText c1))
      | XmlDelete c \<Rightarrow>
          bindP (XmlDeleteCommand_Undo x c) (\<lambda>(x1, c1). Inr (x1, XmlDelete c1)))"

definition Command_IsExecuted :: "Command \<Rightarrow> bool" where
  "Command_IsExecuted command =
     (case command of
        InsertBefore c \<Rightarrow> InsertBeforeCommand.success c
      | AppendChild c \<Rightarrow> AppendChildCommand.success c
      | EditId c \<Rightarrow> EditIdCommand.success c
      | EditText c \<Rightarrow> EditTextCommand.success c
      | XmlDelete c \<Rightarrow> XmlDeleteCommand.success c)"

definition ExecuteCommand :: "XmlEditor \<Rightarrow> Command \<Rightarrow> panic + XmlEditor" where
  "ExecuteCommand x command =
     bindP (Command_Execute x command) (\<lambda>(x1, c1).
     Inr (x1 \<lparr> undoStack := undoStack x1 @ [c1], redoStack := [],
               XmlEditor.isModified := True \<rparr>))"


definition MarkAsModified :: "XmlEditor \<Rightarrow> bool \<Rightarrow> XmlEditor" where
  "MarkAsModified x modified = x \<lparr> XmlEditor.isModified := modified \<rparr>"

definition Undo :: "XmlEditor \<Rightarrow> panic + XmlEditor" where
  "Undo x =
     (if undoStack x = [] then Inr x
      else
        bindP (Command_Undo x (last (undoStack x))) (\<lambda>(x1, c1).
        Inr (x1 \<lparr> undoStack := butlast (undoStack x1), redoStack := redoStack x1 @ [c1] \<rparr>)))"

definition Redo :: "XmlEditor \<Rightarrow> panic + XmlEditor" where
  "Redo x =
     (if redoStack x = [] then Inr x
      else
        bindP (Command_Execute x (last (redoStack x))) (\<lambda>(x1, c1).
        Inr (x1 \<lparr> redoStack := butlast (redoStack x1), undoStack := undoStack x1 @ [c1] \<rparr>)))"

text \<open>The mutation entry points of \<^verbatim>\<open>src/editor/editor_cmd.go\<close> (the notification of the
  log observers is left out; it does not touch the document).\<close>

definition XmlEditor_InsertBefore ::
  "XmlEditor \<Rightarrow> string \<Rightarrow> string \<Rightarrow> string \<Rightarrow> string \<Rightarrow> panic + XmlEditor" where
  "XmlEditor_InsertBefore x tg nid tid txt =
     ExecuteCommand x (InsertBefore (NewInsertBeforeCommand tg nid tid txt))"

definition XmlEditor_AppendChild ::
  "XmlEditor \<Rightarrow> string \<Rightarrow> string \<Rightarrow> string \<Rightarrow> string \<Rightarrow> panic + XmlEditor" where
  "XmlEditor_AppendChild x tg nid pid txt =
     ExecuteCommand x (AppendChild (NewAppendChildCommand tg nid pid txt))"

definition XmlEditor_EditId :: "XmlEditor \<Rightarrow> string \<Rightarrow> string \<Rightarrow> panic + XmlEditor" where
  "XmlEditor_EditId x old new = ExecuteCommand x (EditId (NewEditIdCommand old new))"

definition XmlEditor_EditText :: "XmlEditor \<Rightarrow> string \<Rightarrow> string \<Rightarrow> panic + XmlEditor" where
  "XmlEditor_EditText x eid txt = ExecuteCommand x (EditText (NewEditTextCommand eid txt))"

definition XmlEditor_Delete :: "XmlEditor \<Rightarrow> string \<Rightarrow> panic + XmlEditor" where
  "XmlEditor_Delete x eid = ExecuteCommand x (XmlDelete (NewXmlDeleteCommand eid))"

subsection \<open>Parsing and the identifier index\<close>

text \<open>
  \<^verbatim>\<open>parseXMLContent\<close> reads the tokens that the decoder of Go's \<^verbatim>\<open>encoding/xml\<close> yields.
  The decoder is library code; the loop over its tokens is the repository's, and is modelled
  here on the token sequence: the local name and the attributes (local name, value) of a
  start tag, the bytes of character data, an end tag, and a processing instruction (target
  and content), which the loop passes over as it does every other kind of token.
\<close>

datatype Token =
  StartElement string "(string \<times> string) list"
  | CharData string
  | EndElement string
  | ProcInst string string

text \<open>\<^verbatim>\<open>strings.TrimSpace\<close> on ASCII white space (the Unicode white space beyond ASCII is
  not modelled).\<close>

definition isSpace :: "char \<Rightarrow> bool" where
  "isSpace c = (c \<in> {CHR 0x09, CHR 0x0A, CHR 0x0B, CHR 0x0C, CHR 0x0D, CHR 0x20})"

definition TrimSpace :: "string \<Rightarrow> string" where
  "TrimSpace s = rev (dropWhile isSpace (rev (dropWhile isSpace s)))"

definition zeroElement :: XMLElement where
  "zeroElement = \<lparr> XMLElement.tag = [], id' = [], attrs = [], XMLElement.text = [],
                   parent = None, children = [] \<rparr>"

definition emptyHeap :: heap where
  "emptyHeap = (\<lambda>a. zeroElement)"

text \<open>The attribute loop of a start tag: every attribute is stored, and one named
  \<^verbatim>\<open>id\<close> also sets the identifier.\<close>

fun setAttrs :: "XMLElement \<Rightarrow> (string \<times> string) list \<Rightarrow> XMLElement" where
  "setAttrs e [] = e"
| "setAttrs e ((attrName, attrValue) # rest) =
     (let e1 = e \<lparr> attrs := AList.update attrName attrValue (attrs e) \<rparr>;
          e2 = (if attrName = ''id'' then e1 \<lparr> id' := attrValue \<rparr> else e1)
      in setAttrs e2 rest)"

text \<open>The token loop: the state is the heap, the next free address, \<^verbatim>\<open>root\<close> and
  \<^verbatim>\<open>currentParent\<close>.\<close>

fun parseTokens ::
  "Token list \<Rightarrow> heap \<Rightarrow> addr \<Rightarrow> addr option \<Rightarrow> addr option \<Rightarrow> heap \<times> addr \<times> addr option"
  where
  "parseTokens [] h n rt currentParent = (h, n, rt)"
| "parseTokens (StartElement name as # ts) h n rt currentParent =
     (let elem = n;
          e = setAttrs (zeroElement \<lparr> XMLElement.tag := name, parent := currentParent \<rparr>) as;
          h1 = h (elem := e)
      in
      case currentParent of
        None \<Rightarrow> parseTokens ts h1 (Suc n) (Some elem) (Some elem)
      | Some p \<Rightarrow>
          parseTokens ts (h1 (p := (h1 p) \<lparr> children := children (h1 p) @ [elem] \<rparr>))
            (Suc n) rt (Some elem))"
| "parseTokens (CharData t # ts) h n rt currentParent =
     (let txt = TrimSpace t in
      case currentParent of
        Some p \<Rightarrow>
          if txt \<noteq> [] then parseTokens ts (h (p := (h p) \<lparr> XMLElement.text := txt \<rparr>)) n rt currentParent
          else parseTokens ts h n rt currentParent
      | None \<Rightarrow> parseTokens ts h n rt currentParent)"
| "parseTokens (EndElement name # ts) h n rt currentParent =
     (case currentParent of
        Some p \<Rightarrow> parseTokens ts h n rt (parent (h p))
      | None \<Rightarrow> parseTokens ts h n rt currentParent)"
| "parseTokens (ProcInst target inst # ts) h n rt currentParent =
     parseTokens ts h n rt currentParent"

fun traverse :: "nat \<Rightarrow> heap \<Rightarrow> addr \<Rightarrow> (string \<rightharpoonup> addr) \<Rightarrow> panic + (string \<rightharpoonup> addr)"
  and traverse_children ::
    "nat \<Rightarrow> heap \<Rightarrow> addr list \<Rightarrow> (string \<rightharpoonup> addr) \<Rightarrow> panic + (string \<rightharpoonup> addr)"
  where
  "traverse 0 h elem m = Inl StackOverflow"
| "traverse (Suc d) h elem m =
     traverse_children d h (children (h elem))
       (if id' (h elem) \<noteq> [] then m (id' (h elem) \<mapsto> elem) else m)"
| "traverse_children d h [] m = Inr m"
| "traverse_children d h (c # cs) m =
     (case traverse d h c m of Inl e \<Rightarrow> Inl e | Inr m1 \<Rightarrow> traverse_children d h cs m1)"

definition buildIdMap :: "XmlEditor \<Rightarrow> addr option \<Rightarrow> panic + XmlEditor" where
  "buildIdMap x rt =
     (case rt of
        None \<Rightarrow> Inr x
      | Some r \<Rightarrow> bindP (traverse (depthBound x) (heap x) r (idMap x)) (\<lambda>m. Inr (x \<lparr> idMap := m \<rparr>)))"

text \<open>\<^verbatim>\<open>NewXmlEditor\<close>, for a content whose tokens are \<open>ts\<close>: the parsed tree with its
  index when the tokens hold a root element, the placeholder root when they hold none, and
  for the empty content the default root, which is not entered into the index.\<close>

definition parseFailedTag :: string where
  "parseFailedTag =
     ''<'' @ [CHR 0xE8, CHR 0xA7, CHR 0xA3, CHR 0xE6, CHR 0x9E, CHR 0x90,
              CHR 0xE5, CHR 0xA4, CHR 0xB1, CHR 0xE8, CHR 0xB4, CHR 0xA5] @ ''>''"

definition NewXmlEditor_parsed :: "Token list \<Rightarrow> panic + XmlEditor" where
  "NewXmlEditor_parsed ts =
     (case parseTokens ts emptyHeap 0 None None of
        (h, n, rt) \<Rightarrow>
          (case rt of
             None \<Rightarrow>
               Inr \<lparr> heap = h (n := zeroElement \<lparr> XMLElement.tag := parseFailedTag,
                                                    id' := ''no-id'' \<rparr>),
                     nextAddr = Suc n, root = Some n, idMap = Map.empty,
                     isModified = False, undoStack = [], redoStack = [] \<rparr>
           | Some r \<Rightarrow>
               buildIdMap \<lparr> heap = h, nextAddr = n, root = rt, idMap = Map.empty,
                            isModified = False, undoStack = [], redoStack = [] \<rparr> rt))"


section \<open>Observations on a document, and example sessions\<close>

text \<open>The elements of the tree in document order (an element, then its subtrees), the
  non-empty identifiers among them, and whether the index leads from each identifier in the
  tree to its element.\<close>

fun elements :: "nat \<Rightarrow> heap \<Rightarrow> addr \<Rightarrow> addr list"
  and elements_children :: "nat \<Rightarrow> heap \<Rightarrow> addr list \<Rightarrow> addr list" where
  "elements 0 h a = []"
| "elements (Suc d) h a = a # elements_children d h (children (h a))"
| "elements_children d h [] = []"
| "elements_children d h (c # cs) = elements d h c @ elements_children d h cs"

definition treeElements :: "XmlEditor \<Rightarrow> addr list" where
  "treeElements x =
     (case root x of None \<Rightarrow> [] | Some r \<Rightarrow> elements (depthBound x) (heap x) r)"

definition treeIds :: "XmlEditor \<Rightarrow> string list" where
  "treeIds x = filter (\<lambda>k. k \<noteq> []) (map (\<lambda>a. id' (heap x a)) (treeElements x))"

definition indexed :: "XmlEditor \<Rightarrow> bool" where
  "indexed x =
     list_all (\<lambda>a. id' (heap x a) = [] \<or> idMap x (id' (heap x a)) = Some a) (treeElements x)"

text \<open>The tokens of \<^verbatim>\<open><root id="root"><e id="k"/></root>\<close> and of
  \<^verbatim>\<open><root id="root"><a id="a"><m><b id="b"/></m></a></root>\<close>.\<close>

definition doc_root_e :: "Token list" where
  "doc_root_e =
     [StartElement ''root'' [(''id'', ''root'')], StartElement ''e'' [(''id'', ''k'')],
      EndElement ''e'', EndElement ''root'']"

definition doc_nested :: "Token list" where
  "doc_nested =
     [StartElement ''root'' [(''id'', ''root'')], StartElement ''a'' [(''id'', ''a'')],
      StartElement ''m'' [], StartElement ''b'' [(''id'', ''b'')],
      EndElement ''b'', EndElement ''m'', EndElement ''a'', EndElement ''root'']"

text \<open>A command that fails its validation, issued after an undo has left a command on the
  redo stack.\<close>

definition failed_command_session :: "panic + (XmlEditor \<times> XmlEditor)" where
  "failed_command_session =
     bindP (NewXmlEditor_parsed doc_root_e) (\<lambda>x0.
     bindP (XmlEditor_AppendChild x0 ''book'' ''b2'' ''root'' ''Title'') (\<lambda>x1.
     bindP (Undo x1) (\<lambda>x2.
     bindP (XmlEditor_EditText x2 ''nope'' ''hello'') (\<lambda>x3. Inr (x2, x3)))))"

text \<open>Deleting an element that has a grandchild below a child without identifier.\<close>

definition delete_session :: "panic + (XmlEditor \<times> XmlEditor)" where
  "delete_session =
     bindP (NewXmlEditor_parsed doc_nested) (\<lambda>x0.
     bindP (XmlEditor_Delete x0 ''a'') (\<lambda>x1. Inr (x0, x1)))"

text \<open>Renaming an element.\<close>

definition editId_session :: "panic + (XmlEditor \<times> XmlEditor)" where
  "editId_session =
     bindP (NewXmlEditor_parsed doc_root_e) (\<lambda>x0.
     bindP (XmlEditor_EditId x0 ''k'' ''j'') (\<lambda>x1. Inr (x0, x1)))"

text \<open>Setting the text of an element that has none, and undoing it.\<close>

definition editText_session :: "panic + (XmlEditor \<times> XmlEditor \<times> XmlEditor)" where
  "editText_session =
     bindP (NewXmlEditor_parsed doc_root_e) (\<lambda>x0.
     bindP (XmlEditor_EditText x0 ''k'' ''hello'') (\<lambda>x1.
     bindP (Undo x1) (\<lambda>x2. Inr (x0, x1, x2))))"

text \<open>Three successful commands, then the three undos.\<close>

definition rename_session :: "panic + (XmlEditor \<times> XmlEditor \<times> XmlEditor)" where
  "rename_session =
     bindP (NewXmlEditor_parsed doc_root_e) (\<lambda>x0.
     bindP (XmlEditor_EditId x0 ''k'' ''j'') (\<lambda>x1.
     bindP (XmlEditor_AppendChild x1 ''n'' [] ''root'' []) (\<lambda>x2.
     bindP (XmlEditor_EditId x2 [] ''k'') (\<lambda>x3.
     bindP (Undo x3) (\<lambda>x4.
     bindP (Undo x4) (\<lambda>x5.
     bindP (Undo x5) (\<lambda>x6. Inr (x0, x3, x6))))))))"

section \<open>What the theorems on the text buffer assume\<close>

text \<open>A line of the buffer is a Go string, so its length fits an \<^verbatim>\<open>int\<close>.\<close>

definition TextEditor_bounded :: "TextEditor \<Rightarrow> bool" where
  "TextEditor_bounded te = list_all (\<lambda>l. len l < 2 ^ 63) (TextEditor.lines te)"

text \<open>
  A \<^verbatim>\<open>ReplaceCommand\<close> as \<^verbatim>\<open>NewReplaceCommand\<close> builds it and as \<^verbatim>\<open>Execute\<close> and \<^verbatim>\<open>Undo\<close>
  leave it: the two sub-commands share the line and the column, the coordinates are Go
  \<^verbatim>\<open>int\<close>s, and the three flags agree.
\<close>

definition ReplaceCommand_inv :: "ReplaceCommand \<Rightarrow> bool" where
  "ReplaceCommand_inv cmd =
     (InsertCommand.line (insertCmd cmd) = DeleteCommand.line (deleteCmd cmd) \<and>
      InsertCommand.col (insertCmd cmd) = DeleteCommand.col (deleteCmd cmd) \<and>
      int64 (DeleteCommand.line (deleteCmd cmd)) \<and>
      int64 (DeleteCommand.col (deleteCmd cmd)) \<and>
      int64 (DeleteCommand.length' (deleteCmd cmd)) \<and>
      DeleteCommand.executed (deleteCmd cmd) = ReplaceCommand.executed cmd \<and>
      InsertCommand.executed (insertCmd cmd) = ReplaceCommand.executed cmd)"

text \<open>Executing an insert and undoing it at once.\<close>

definition Insert_then_Undo :: "TextEditor \<Rightarrow> InsertCommand \<Rightarrow> panic + (TextEditor \<times> InsertCommand)" where
  "Insert_then_Undo te cmd =
     bindP (InsertCommand_Execute te cmd) (\<lambda>(te1, cmd1). InsertCommand_Undo te1 cmd1)"

section \<open>Properties of the text buffer\<close>

lemma Split_not_Nil: "Split s c \<noteq> []"
  by (induction s) (auto split: list.splits)

lemma i64_id: "int64 x \<Longrightarrow> i64 x = x"
  by (simp add: i64_def int64_def)

lemma i64_pred: "int64 x \<Longrightarrow> 1 \<le> x \<Longrightarrow> i64 (x - 1) = x - 1"
  by (simp add: i64_def int64_def)

text \<open>
  Claim C3.  On a document with zero lines, \<^verbatim>\<open>validate\<close> accepts the coordinates
  line 1, column 1 (and only those), but \<^verbatim>\<open>Execute\<close> then reads \<^verbatim>\<open>lines[0]\<close> of the empty
  slice: the call panics with an index out of range instead of inserting the text.
\<close>

theorem Insert_empty_document_panics:
  "InsertCommand_validate \<lparr> lines = [], isModified = m \<rparr> (NewInsertCommand l c t)
     = (l = 1 \<and> c = 1) \<and>
   InsertCommand_Execute \<lparr> lines = [], isModified = m \<rparr> (NewInsertCommand 1 1 t)
     = Inl IndexOutOfRange"
  by (simp add: InsertCommand_Execute_def InsertCommand_validate_def NewInsertCommand_def
      len_def index_at_def bindP_def i64_def)

lemma i64_range_id: "- (2 ^ 63) \<le> x \<Longrightarrow> x < 2 ^ 63 \<Longrightarrow> i64 x = x"
  by (simp add: i64_def)

lemma i64_wrap_neg: "2 ^ 63 \<le> x \<Longrightarrow> x < 2 ^ 64 \<Longrightarrow> i64 x = x - 2 ^ 64"
proof -
  assume a: "2 ^ 63 \<le> x" and b: "x < 2 ^ 64"
  have "(x + 2 ^ 63) mod 2 ^ 64 = (x + 2 ^ 63 - 2 ^ 64) mod 2 ^ 64"
    by (metis minus_mod_self2)
  also have "\<dots> = x + 2 ^ 63 - 2 ^ 64" using a b by (simp add: mod_pos_pos_trivial)
  finally show ?thesis by (simp add: i64_def)
qed

lemma i64_wrap_pos: "- (2 ^ 63) - 1 \<le> x \<Longrightarrow> x < - (2 ^ 63) \<Longrightarrow> i64 x = x + 2 ^ 64"
proof -
  assume a: "- (2 ^ 63) - 1 \<le> x" and b: "x < - (2 ^ 63)"
  have "(x + 2 ^ 63) mod 2 ^ 64 = (x + 2 ^ 63 + 2 ^ 64) mod 2 ^ 64"
    by (metis mod_add_self2)
  also have "\<dots> = x + 2 ^ 63 + 2 ^ 64" using a b by (simp add: mod_pos_pos_trivial)
  finally show ?thesis by (simp add: i64_def)
qed

lemma i64_col_pred:
  assumes c: "int64 c" and lo: "0 \<le> i64 (c - 1)" and hi: "i64 (c - 1) < n" and n: "n \<le> 2 ^ 63 - 1"
  shows "i64 (c - 1) = c - 1" "1 \<le> c"
proof -
  have "c \<noteq> - (2 ^ 63)"
  proof
    assume e: "c = - (2 ^ 63)"
    have "i64 (c - 1) = c - 1 + 2 ^ 64" by (rule i64_wrap_pos) (simp_all add: e)
    with hi n e show False by simp
  qed
  with c have r: "- (2 ^ 63) \<le> c - 1" "c - 1 < 2 ^ 63" by (simp_all add: int64_def)
  then show e: "i64 (c - 1) = c - 1" by (rule i64_range_id)
  with lo show "1 \<le> c" by simp
qed

lemma bounded_nth:
  "TextEditor_bounded te \<Longrightarrow> n < length (TextEditor.lines te) \<Longrightarrow> len (TextEditor.lines te ! n) \<le> 2 ^ 63 - 1"
proof -
  assume "TextEditor_bounded te" and "n < length (TextEditor.lines te)"
  then have "len (TextEditor.lines te ! n) < 2 ^ 63"
    by (simp add: TextEditor_bounded_def list_all_length)
  then show ?thesis by simp
qed

lemma DeleteCommand_validateD:
  assumes v: "DeleteCommand_validate te d"
    and l: "int64 (DeleteCommand.line d)" and c: "int64 (DeleteCommand.col d)"
    and b: "TextEditor_bounded te"
  shows "1 \<le> DeleteCommand.line d"
    and "DeleteCommand.line d \<le> len (TextEditor.lines te)"
    and "i64 (DeleteCommand.line d - 1) = DeleteCommand.line d - 1"
    and "1 \<le> DeleteCommand.col d"
    and "i64 (DeleteCommand.col d - 1) = DeleteCommand.col d - 1"
    and "DeleteCommand.col d - 1 < len (TextEditor.lines te ! nat (DeleteCommand.line d - 1))"
    and "0 < DeleteCommand.length' d"
    and "i64 (DeleteCommand.col d - 1 + DeleteCommand.length' d)
           \<le> len (TextEditor.lines te ! nat (DeleteCommand.line d - 1))"
proof -
  from v show l1: "1 \<le> DeleteCommand.line d" and l2: "DeleteCommand.line d \<le> len (TextEditor.lines te)"
    by (simp_all add: DeleteCommand_validate_def Let_def split: if_splits)
  from l l1 show li: "i64 (DeleteCommand.line d - 1) = DeleteCommand.line d - 1" by (rule i64_pred)
  let ?t = "TextEditor.lines te ! nat (DeleteCommand.line d - 1)"
  have "nat (DeleteCommand.line d - 1) < length (TextEditor.lines te)" using l1 l2 by (simp add: len_def)
  with b have tb: "len ?t \<le> 2 ^ 63 - 1" by (rule bounded_nth)
  from v l1 l2 li have c0: "0 \<le> i64 (DeleteCommand.col d - 1)" and c1: "i64 (DeleteCommand.col d - 1) < len ?t"
    and n: "0 < DeleteCommand.length' d"
    and e: "i64 (i64 (DeleteCommand.col d - 1) + DeleteCommand.length' d) \<le> len ?t"
    by (simp_all add: DeleteCommand_validate_def Let_def split: if_splits)
  from c c0 c1 tb show ci: "i64 (DeleteCommand.col d - 1) = DeleteCommand.col d - 1"
    and "1 \<le> DeleteCommand.col d" by (rule i64_col_pred)+
  from c1 ci show "DeleteCommand.col d - 1 < len ?t" by simp
  from n show "0 < DeleteCommand.length' d" .
  from e ci show "i64 (DeleteCommand.col d - 1 + DeleteCommand.length' d) \<le> len ?t" by simp
qed


lemma DeleteCommand_Execute_valid:
  assumes v: "DeleteCommand_validate te d"
    and l: "int64 (DeleteCommand.line d)" and c: "int64 (DeleteCommand.col d)"
    and b: "TextEditor_bounded te"
  shows "DeleteCommand_Execute te d =
    (if 0 \<le> i64 (DeleteCommand.col d - 1 + DeleteCommand.length' d)
     then Inr (te \<lparr> TextEditor.lines := (TextEditor.lines te)
                      [nat (DeleteCommand.line d - 1) :=
                         take (nat (DeleteCommand.col d - 1)) (TextEditor.lines te ! nat (DeleteCommand.line d - 1)) @
                         drop (nat (i64 (DeleteCommand.col d - 1 + DeleteCommand.length' d)))
                           (TextEditor.lines te ! nat (DeleteCommand.line d - 1))],
                    TextEditor.isModified := True \<rparr>,
               d \<lparr> DeleteCommand.prevLine := TextEditor.lines te ! nat (DeleteCommand.line d - 1),
                   DeleteCommand.executed := True \<rparr>)
     else Inl SliceBoundsOutOfRange)"
proof -
  note D = DeleteCommand_validateD[OF v l c b]
  have lt: "DeleteCommand.line d - 1 < len (TextEditor.lines te)" using D(2) by simp
  have l0: "0 \<le> DeleteCommand.line d - 1" using D(1) by simp
  have c0: "0 \<le> DeleteCommand.col d - 1" using D(4) by simp
  have c1: "DeleteCommand.col d - 1 \<le> len (TextEditor.lines te ! nat (DeleteCommand.line d - 1))"
    using D(6) by simp
  show ?thesis
    unfolding DeleteCommand_Execute_def using D(1) D(4)
    by (simp add: v D(3) D(5) D(8) lt l0 c0 c1 Let_def bindP_def index_at_def slice_to_def slice_from_def)
qed


lemma i64_no_wrap:
  assumes "int64 a" "int64 n" "0 \<le> a" "0 < n" "0 \<le> i64 (a + n)"
  shows "i64 (a + n) = a + n"
proof (rule ccontr)
  assume ne: "i64 (a + n) \<noteq> a + n"
  have lo: "- (2 ^ 63) \<le> a + n" using assms by simp
  have "\<not> a + n < 2 ^ 63" using ne lo i64_range_id by blast
  then have ge: "2 ^ 63 \<le> a + n" by simp
  have "a + n < 2 ^ 64" using assms(1,2) by (simp add: int64_def)
  with ge have "i64 (a + n) = a + n - 2 ^ 64" by (rule i64_wrap_neg)
  moreover have "a + n - 2 ^ 64 < 0" using \<open>a + n < 2 ^ 64\<close> by simp
  ultimately show False using assms(5) by simp
qed

lemma i64_le: assumes "0 \<le> x" shows "i64 x \<le> x"
proof -
  have "(x + 2 ^ 63) mod 2 ^ 64 \<le> x + 2 ^ 63"
    using assms by (intro zmod_le_nonneg_dividend) simp
  then show ?thesis by (simp add: i64_def)
qed

lemma i64_upper: "i64 x < 2 ^ 63"
proof -
  have "(x + 2 ^ 63) mod 2 ^ 64 < (2 ^ 64 :: int)" by (rule pos_mod_bound) simp
  then show ?thesis by (simp add: i64_def)
qed

lemma InsertCommand_validateD:
  assumes v: "InsertCommand_validate te i"
    and ne: "TextEditor.lines te \<noteq> []"
    and l: "int64 (InsertCommand.line i)"
  shows "1 \<le> InsertCommand.line i"
    and "InsertCommand.line i \<le> len (TextEditor.lines te)"
    and "i64 (InsertCommand.line i - 1) = InsertCommand.line i - 1"
    and "1 \<le> InsertCommand.col i"
    and "i64 (InsertCommand.col i - 1) = InsertCommand.col i - 1"
    and "InsertCommand.col i - 1 \<le> len (TextEditor.lines te ! nat (InsertCommand.line i - 1))"
proof -
  from ne have n0: "len (TextEditor.lines te) \<noteq> 0" by (simp add: len_def)
  from v n0 show l1: "1 \<le> InsertCommand.line i" and l2: "InsertCommand.line i \<le> len (TextEditor.lines te)"
    by (simp_all add: InsertCommand_validate_def Let_def split: if_splits)
  from l l1 show li: "i64 (InsertCommand.line i - 1) = InsertCommand.line i - 1" by (rule i64_pred)
  let ?t = "TextEditor.lines te ! nat (InsertCommand.line i - 1)"
  from v n0 l1 l2 li have c1: "1 \<le> InsertCommand.col i" and c2: "InsertCommand.col i \<le> i64 (len ?t + 1)"
    by (simp_all add: InsertCommand_validate_def Let_def split: if_splits)
  show "1 \<le> InsertCommand.col i" by (rule c1)
  have "i64 (len ?t + 1) < 2 ^ 63" by (rule i64_upper)
  with c1 c2 show "i64 (InsertCommand.col i - 1) = InsertCommand.col i - 1"
    by (intro i64_range_id) simp_all
  have "i64 (len ?t + 1) \<le> len ?t + 1" by (rule i64_le) (simp add: len_def)
  with c2 show "InsertCommand.col i - 1 \<le> len ?t" by simp
qed

lemma InsertCommand_Execute_valid:
  assumes v: "InsertCommand_validate te i"
    and ne: "TextEditor.lines te \<noteq> []"
    and l: "int64 (InsertCommand.line i)"
  shows "InsertCommand_Execute te i =
    Inr (te \<lparr> TextEditor.lines :=
               (if len (Split (InsertCommand.text i) newline) = 1
                then (TextEditor.lines te)
                       [nat (InsertCommand.line i - 1) :=
                          take (nat (InsertCommand.col i - 1)) (TextEditor.lines te ! nat (InsertCommand.line i - 1)) @
                          InsertCommand.text i @
                          drop (nat (InsertCommand.col i - 1)) (TextEditor.lines te ! nat (InsertCommand.line i - 1))]
                else take (nat (InsertCommand.line i - 1)) (TextEditor.lines te) @
                     [take (nat (InsertCommand.col i - 1)) (TextEditor.lines te ! nat (InsertCommand.line i - 1)) @
                        hd (Split (InsertCommand.text i) newline)] @
                     butlast (tl (Split (InsertCommand.text i) newline)) @
                     [last (Split (InsertCommand.text i) newline) @
                        drop (nat (InsertCommand.col i - 1)) (TextEditor.lines te ! nat (InsertCommand.line i - 1))] @
                     drop (nat (InsertCommand.line i)) (TextEditor.lines te)),
              TextEditor.isModified := True \<rparr>,
         i \<lparr> InsertCommand.prevLine := TextEditor.lines te ! nat (InsertCommand.line i - 1),
             splitLines := Split (InsertCommand.text i) newline,
             InsertCommand.executed := True \<rparr>)"
proof -
  note D = InsertCommand_validateD[OF v ne l]
  have l0: "0 \<le> InsertCommand.line i - 1" using D(1) by simp
  have lt: "InsertCommand.line i - 1 < len (TextEditor.lines te)" using D(2) by simp
  have lle: "InsertCommand.line i - 1 \<le> len (TextEditor.lines te)" using D(2) by simp
  have c0: "0 \<le> InsertCommand.col i - 1" using D(4) by simp
  have l1: "i64 (InsertCommand.line i) = InsertCommand.line i" using l by (rule i64_id)
  have l2: "0 \<le> InsertCommand.line i" using D(1) by simp
  show ?thesis
    unfolding InsertCommand_Execute_def using D(1) D(4)
    by (simp add: v D(2) D(3) D(5) D(6) l0 lt lle c0 l1 l2 Let_def bindP_def index_at_def slice_to_def slice_from_def)
qed

lemma InsertCommand_Execute_keeps_executed:
  "InsertCommand_Execute te i = Inr (te2, i2) \<Longrightarrow> InsertCommand.executed i \<Longrightarrow> InsertCommand.executed i2"
  by (auto simp: InsertCommand_Execute_def bindP_def Let_def split: if_splits sum.splits)

lemma DeleteCommand_Execute_keeps_executed:
  "DeleteCommand_Execute te d = Inr (te2, d2) \<Longrightarrow> DeleteCommand.executed d \<Longrightarrow> DeleteCommand.executed d2"
  by (auto simp: DeleteCommand_Execute_def bindP_def Let_def split: if_splits sum.splits)

lemma NewReplaceCommand_inv:
  "int64 l \<Longrightarrow> int64 c \<Longrightarrow> int64 n \<Longrightarrow> ReplaceCommand_inv (NewReplaceCommand l c n t)"
  by (simp add: ReplaceCommand_inv_def NewReplaceCommand_def NewDeleteCommand_def NewInsertCommand_def)

lemma delete_then_insert:
  assumes v: "DeleteCommand_validate te d"
    and l: "int64 (DeleteCommand.line d)" and c: "int64 (DeleteCommand.col d)"
    and n: "int64 (DeleteCommand.length' d)"
    and b: "TextEditor_bounded te"
    and il: "InsertCommand.line i = DeleteCommand.line d"
    and ic: "InsertCommand.col i = DeleteCommand.col d"
    and ex: "DeleteCommand_Execute te d = Inr (te1, d1)"
  shows "DeleteCommand.executed d1 \<and>
         (\<exists>te2 i2. InsertCommand_Execute te1 i = Inr (te2, i2) \<and> InsertCommand.executed i2)"
proof -
  note D = DeleteCommand_validateD[OF v l c b]
  note E = DeleteCommand_Execute_valid[OF v l c b]
  let ?li = "nat (DeleteCommand.line d - 1)"
  let ?t = "TextEditor.lines te ! ?li"
  let ?ci = "DeleteCommand.col d - 1"
  let ?k = "i64 (?ci + DeleteCommand.length' d)"
  let ?t1 = "take (nat ?ci) ?t @ drop (nat ?k) ?t"
  have k0: "0 \<le> ?k" using ex E by (simp split: if_splits)
  have te1: "te1 = te \<lparr> TextEditor.lines := (TextEditor.lines te) [?li := ?t1],
                        TextEditor.isModified := True \<rparr>"
    and d1: "DeleteCommand.executed d1"
    using ex E k0 by auto
  have cr: "int64 ?ci" using c D(4) by (simp add: int64_def)
  have kk: "?k = ?ci + DeleteCommand.length' d"
    using cr n _ D(7) k0 by (rule i64_no_wrap) (use D(4) in simp)
  have lt: "?li < length (TextEditor.lines te)" using D(1,2) by (simp add: len_def)
  have ne1: "TextEditor.lines te1 \<noteq> []" using te1 lt by auto
  have l1: "TextEditor.lines te1 ! ?li = ?t1" using te1 lt by simp
  have len1: "len ?t1 = ?ci + (len ?t - ?k)" using D(4,6,7,8) k0 kk by (simp add: len_def)
  have tb: "len ?t \<le> 2 ^ 63 - 1" using b lt by (rule bounded_nth)
  have ge: "0 \<le> len ?t1" by (simp add: len_def)
  have up: "len ?t1 + 1 < 2 ^ 63" using len1 kk D(7) tb by simp
  have i1: "i64 (len ?t1 + 1) = len ?t1 + 1"
    using ge up by (intro i64_range_id) simp_all
  have ll: "len (TextEditor.lines te1) = len (TextEditor.lines te)" using te1 by (simp add: len_def)
  have n0: "len (TextEditor.lines te) \<noteq> 0" using lt by (auto simp: len_def)
  have iv: "InsertCommand_validate te1 i"
  proof -
    have a: "len (TextEditor.lines te1) \<noteq> 0" using ll n0 by simp
    have b': "\<not> (InsertCommand.line i < 1 \<or> InsertCommand.line i > len (TextEditor.lines te1))"
      using D(1,2) il ll by simp
    have c': "InsertCommand.col i \<ge> 1" using D(4) ic by simp
    have "DeleteCommand.col d \<le> len ?t1 + 1" using len1 kk D(8) by simp
    then have "InsertCommand.col i \<le> i64 (len ?t1 + 1)" using i1 ic by simp
    moreover have "TextEditor.lines te1 ! nat (i64 (InsertCommand.line i - 1)) = ?t1"
      using l1 il D(3) by simp
    ultimately have d': "InsertCommand.col i
        \<le> i64 (len (TextEditor.lines te1 ! nat (i64 (InsertCommand.line i - 1))) + 1)" by simp
    show ?thesis
      unfolding InsertCommand_validate_def Let_def using a b' c' d' by (simp only: if_False simp_thms)
  qed
  have "int64 (InsertCommand.line i)" using l il by simp
  from InsertCommand_Execute_valid[OF iv ne1 this] d1 show ?thesis by simp
qed

lemma Replace_not_executed_te:
  assumes inv: "ReplaceCommand_inv cmd"
    and b: "TextEditor_bounded te"
    and ex: "ReplaceCommand_Execute te cmd = Inr (te', cmd')"
    and ne: "\<not> ReplaceCommand_IsExecuted cmd'"
  shows "te' = te"
proof -
  let ?d = "deleteCmd cmd" and ?i = "insertCmd cmd"
  from ex obtain te1 d1 where dx: "DeleteCommand_Execute te ?d = Inr (te1, d1)"
    by (auto simp: ReplaceCommand_Execute_def bindP_def split: sum.splits)
  show ?thesis
  proof (cases "DeleteCommand.executed d1")
    case False
    with ex dx have "te' = te1" by (simp add: ReplaceCommand_Execute_def bindP_def DeleteCommand_IsExecuted_def)
    moreover have "te1 = te"
    proof (cases "DeleteCommand_validate te ?d")
      case True
      with inv b dx have "DeleteCommand.executed d1"
        using delete_then_insert[of te ?d ?i te1 d1] by (simp add: ReplaceCommand_inv_def)
      with False show ?thesis by simp
    next
      case False
      with dx show ?thesis by (simp add: DeleteCommand_Execute_def)
    qed
    ultimately show ?thesis by simp
  next
    case True
    from ex dx True obtain te2 i2 where ix: "InsertCommand_Execute te1 ?i = Inr (te2, i2)"
      and r: "ReplaceCommand.executed cmd' = InsertCommand.executed i2"
      by (auto simp: ReplaceCommand_Execute_def bindP_def DeleteCommand_IsExecuted_def
          InsertCommand_IsExecuted_def split: sum.splits)
    have "InsertCommand.executed i2"
    proof (cases "DeleteCommand_validate te ?d")
      case True
      with inv b dx ix show ?thesis
        using delete_then_insert[of te ?d ?i te1 d1] by (auto simp: ReplaceCommand_inv_def)
    next
      case False
      with dx have "d1 = ?d" by (simp add: DeleteCommand_Execute_def)
      with True inv have "InsertCommand.executed ?i" by (simp add: ReplaceCommand_inv_def)
      with ix show ?thesis by (rule InsertCommand_Execute_keeps_executed)
    qed
    with r ne show ?thesis by (simp add: ReplaceCommand_IsExecuted_def)
  qed
qed

lemma Replace_valid_executed:
  assumes inv: "ReplaceCommand_inv cmd"
    and b: "TextEditor_bounded te"
    and ex: "ReplaceCommand_Execute te cmd = Inr (te', cmd')"
    and v: "DeleteCommand_validate te (deleteCmd cmd)"
  shows "ReplaceCommand_IsExecuted cmd'"
proof -
  let ?d = "deleteCmd cmd" and ?i = "insertCmd cmd"
  from ex obtain te1 d1 where dx: "DeleteCommand_Execute te ?d = Inr (te1, d1)"
    by (auto simp: ReplaceCommand_Execute_def bindP_def split: sum.splits)
  from inv b v dx have d1: "DeleteCommand.executed d1"
    and "\<exists>te2 i2. InsertCommand_Execute te1 ?i = Inr (te2, i2) \<and> InsertCommand.executed i2"
    using delete_then_insert[of te ?d ?i te1 d1] by (simp_all add: ReplaceCommand_inv_def)
  then obtain te2 i2 where ix: "InsertCommand_Execute te1 ?i = Inr (te2, i2)"
    and i2: "InsertCommand.executed i2" by blast
  from ex dx d1 ix i2 show ?thesis
    by (auto simp: ReplaceCommand_Execute_def bindP_def DeleteCommand_IsExecuted_def
        InsertCommand_IsExecuted_def ReplaceCommand_IsExecuted_def)
qed

text \<open>
  Claim C2.  A replace that ends not executed has left the buffer as it was.  The only way
  to end so is a delete sub-step that failed its validation: when the delete succeeds, the
  column is at most the length of the shortened line plus one, so the insert's validation
  cannot fail after it (\<open>delete_then_insert\<close>).
\<close>

theorem Replace_not_executed_leaves_lines:
  assumes inv: "ReplaceCommand_inv cmd"
    and b: "TextEditor_bounded te"
    and ex: "ReplaceCommand_Execute te cmd = Inr (te', cmd')"
    and ne: "\<not> ReplaceCommand_IsExecuted cmd'"
  shows "TextEditor.lines te' = TextEditor.lines te \<and>
         \<not> DeleteCommand_validate te (deleteCmd cmd)"
proof
  from inv b ex ne have "te' = te" by (rule Replace_not_executed_te)
  then show "TextEditor.lines te' = TextEditor.lines te" by simp
  from inv b ex ne show "\<not> DeleteCommand_validate te (deleteCmd cmd)"
    using Replace_valid_executed by blast
qed

theorem Replace_not_executed_leaves_lines_witness:
  "ReplaceCommand_inv (NewReplaceCommand 1 9 1 ''x'') \<and>
   TextEditor_bounded \<lparr> lines = [''Hello''], isModified = False \<rparr> \<and>
   ReplaceCommand_Execute \<lparr> lines = [''Hello''], isModified = False \<rparr> (NewReplaceCommand 1 9 1 ''x'')
     = Inr (\<lparr> lines = [''Hello''], isModified = False \<rparr>, NewReplaceCommand 1 9 1 ''x'') \<and>
   \<not> ReplaceCommand_IsExecuted (NewReplaceCommand 1 9 1 ''x'') \<and>
   TextEditor.lines \<lparr> lines = [''Hello''], isModified = False \<rparr> = [''Hello''] \<and>
   \<not> DeleteCommand_validate \<lparr> lines = [''Hello''], isModified = False \<rparr>
       (deleteCmd (NewReplaceCommand 1 9 1 ''x''))"
proof -
  let ?te = "\<lparr> lines = [''Hello''], isModified = False \<rparr>"
  let ?c = "NewReplaceCommand 1 9 1 ''x''"
  have inv: "ReplaceCommand_inv ?c" by (rule NewReplaceCommand_inv) (simp_all add: int64_def)
  have b: "TextEditor_bounded ?te" by (simp add: TextEditor_bounded_def len_def)
  have ex: "ReplaceCommand_Execute ?te ?c = Inr (?te, ?c)"
    by (simp add: ReplaceCommand_Execute_def NewReplaceCommand_def NewDeleteCommand_def
        NewInsertCommand_def DeleteCommand_Execute_def DeleteCommand_validate_def
        DeleteCommand_IsExecuted_def bindP_def len_def i64_def)
  have ne: "\<not> ReplaceCommand_IsExecuted ?c"
    by (simp add: ReplaceCommand_IsExecuted_def NewReplaceCommand_def)
  from Replace_not_executed_leaves_lines[OF inv b ex ne] inv b ex ne show ?thesis by simp
qed

lemma DeleteCommand_Execute_fields:
  "DeleteCommand_Execute te d = Inr (te1, d1) \<Longrightarrow>
   DeleteCommand.line d1 = DeleteCommand.line d \<and> DeleteCommand.col d1 = DeleteCommand.col d \<and>
   DeleteCommand.length' d1 = DeleteCommand.length' d"
  by (auto simp: DeleteCommand_Execute_def bindP_def Let_def split: if_splits sum.splits)

lemma InsertCommand_Execute_fields:
  "InsertCommand_Execute te i = Inr (te1, i1) \<Longrightarrow>
   InsertCommand.line i1 = InsertCommand.line i \<and> InsertCommand.col i1 = InsertCommand.col i"
  by (auto simp: InsertCommand_Execute_def bindP_def Let_def split: if_splits sum.splits)

lemma ReplaceCommand_Execute_inv:
  assumes inv: "ReplaceCommand_inv cmd"
    and b: "TextEditor_bounded te"
    and ex: "ReplaceCommand_Execute te cmd = Inr (te', cmd')"
  shows "ReplaceCommand_inv cmd'"
proof -
  let ?d = "deleteCmd cmd" and ?i = "insertCmd cmd"
  from ex obtain te1 d1 where dx: "DeleteCommand_Execute te ?d = Inr (te1, d1)"
    by (auto simp: ReplaceCommand_Execute_def bindP_def split: sum.splits)
  note df = DeleteCommand_Execute_fields[OF dx]
  show ?thesis
  proof (cases "DeleteCommand.executed d1")
    case False
    with ex dx have c': "cmd' = cmd \<lparr> deleteCmd := d1 \<rparr>"
      by (simp add: ReplaceCommand_Execute_def bindP_def DeleteCommand_IsExecuted_def)
    from False dx have "\<not> DeleteCommand.executed ?d"
      using DeleteCommand_Execute_keeps_executed by blast
    with inv df False show ?thesis unfolding c' by (simp add: ReplaceCommand_inv_def)
  next
    case True
    from ex dx True obtain te2 i2 where ix: "InsertCommand_Execute te1 ?i = Inr (te2, i2)"
      and c': "cmd' = cmd \<lparr> deleteCmd := d1, insertCmd := i2,
                             ReplaceCommand.executed := InsertCommand.executed i2 \<rparr>"
      by (auto simp: ReplaceCommand_Execute_def bindP_def DeleteCommand_IsExecuted_def
          InsertCommand_IsExecuted_def split: sum.splits)
    note jf = InsertCommand_Execute_fields[OF ix]
    have "InsertCommand.executed i2"
    proof (cases "DeleteCommand_validate te ?d")
      case True
      with inv b dx ix show ?thesis
        using delete_then_insert[of te ?d ?i te1 d1] by (auto simp: ReplaceCommand_inv_def)
    next
      case False
      with dx have "d1 = ?d" by (simp add: DeleteCommand_Execute_def)
      with True inv have "InsertCommand.executed ?i" by (simp add: ReplaceCommand_inv_def)
      with ix show ?thesis by (rule InsertCommand_Execute_keeps_executed)
    qed
    with inv df jf True show ?thesis unfolding c' by (simp add: ReplaceCommand_inv_def)
  qed
qed

lemma Split_length_le: "length (Split s c) \<le> Suc (length s)"
  by (induction s) (auto split: list.splits)

lemma Split_parts_length:
  assumes "length ps \<noteq> 1" "ps \<noteq> []"
  shows "length ([a @ hd ps] @ butlast (tl ps) @ [last ps @ b]) = length ps"
proof -
  from assms have "2 \<le> length ps" by (cases ps) (auto simp: Suc_le_eq)
  then show ?thesis by simp
qed

lemma splice_undo:
  assumes li: "li < length L" and n: "length mid = n"
  shows "take li (take li L @ mid @ drop (Suc li) L) @ [L ! li] @
         drop (li + n) (take li L @ mid @ drop (Suc li) L) = L"
proof -
  have a: "take li (take li L @ mid @ drop (Suc li) L) = take li L" using li by simp
  have b: "drop (li + n) (take li L @ mid @ drop (Suc li) L) = drop (Suc li) L"
    using li n by simp
  show ?thesis unfolding a b using li by (simp add: id_take_nth_drop[symmetric])
qed


lemma InsertCommand_Undo_multi:
  assumes ex: "InsertCommand.executed c"
    and ps: "len (splitLines c) \<noteq> 1"
    and li: "i64 (InsertCommand.line c - 1) = InsertCommand.line c - 1"
    and rc: "i64 (len (splitLines c) - 1) = len (splitLines c) - 1"
    and cap: "0 \<le> i64 (len (TextEditor.lines te) - (len (splitLines c) - 1))"
    and l0: "0 \<le> InsertCommand.line c - 1"
    and l1: "InsertCommand.line c - 1 \<le> len (TextEditor.lines te)"
    and lr: "i64 (InsertCommand.line c) = InsertCommand.line c"
    and hi: "i64 (InsertCommand.line c + (len (splitLines c) - 1))
               = InsertCommand.line c + (len (splitLines c) - 1)"
    and h0: "0 \<le> InsertCommand.line c + (len (splitLines c) - 1)"
    and h1: "InsertCommand.line c + (len (splitLines c) - 1) \<le> len (TextEditor.lines te)"
  shows "InsertCommand_Undo te c =
    Inr (te \<lparr> TextEditor.lines :=
               take (nat (InsertCommand.line c - 1)) (TextEditor.lines te) @ [InsertCommand.prevLine c] @
               drop (nat (InsertCommand.line c + (len (splitLines c) - 1))) (TextEditor.lines te),
              TextEditor.isModified := True \<rparr>, c)"
proof -
  have a: "slice_to (TextEditor.lines te) (InsertCommand.line c - 1)
             = Inr (take (nat (InsertCommand.line c - 1)) (TextEditor.lines te))"
    using l0 l1 by (simp add: slice_to_def)
  have b: "slice_from (TextEditor.lines te) (InsertCommand.line c + (len (splitLines c) - 1))
             = Inr (drop (nat (InsertCommand.line c + (len (splitLines c) - 1))) (TextEditor.lines te))"
    using h0 h1 by (simp add: slice_from_def)
  have e: "i64 (i64 (InsertCommand.line c - 1 + 1) + (len (splitLines c) - 1))
             = InsertCommand.line c + (len (splitLines c) - 1)"
    using lr hi by simp
  have n: "\<not> i64 (len (TextEditor.lines te) - (len (splitLines c) - 1)) < 0" using cap by simp
  show ?thesis
    unfolding InsertCommand_Undo_def Let_def li rc e a
    using ex ps n by (simp add: b bindP_def)
qed

lemma Insert_then_Undo_nonempty:
  assumes v: "InsertCommand_validate te i"
    and ne: "TextEditor.lines te \<noteq> []"
    and l: "int64 (InsertCommand.line i)"
    and m: "len (TextEditor.lines te) + len (InsertCommand.text i) + 1 < 2 ^ 63"
  shows "\<exists>te2 i2. Insert_then_Undo te i = Inr (te2, i2) \<and> TextEditor.lines te2 = TextEditor.lines te"
proof -
  note D = InsertCommand_validateD[OF v ne l]
  note E = InsertCommand_Execute_valid[OF v ne l]
  let ?L = "TextEditor.lines te"
  let ?li = "nat (InsertCommand.line i - 1)"
  let ?t = "?L ! ?li"
  let ?ci = "nat (InsertCommand.col i - 1)"
  let ?ps = "Split (InsertCommand.text i) newline"
  have lt: "?li < length ?L" using D(1,2) by (simp add: len_def)
  have psn: "?ps \<noteq> []" by (rule Split_not_Nil)
  have psl: "len ?ps \<le> len (InsertCommand.text i) + 1"
    using Split_length_le[of "InsertCommand.text i" newline] by (simp add: len_def)
  show ?thesis
  proof (cases "len ?ps = 1")
    case True
    let ?L1 = "?L [?li := take ?ci ?t @ InsertCommand.text i @ drop ?ci ?t]"
    let ?te1 = "te \<lparr> TextEditor.lines := ?L1, TextEditor.isModified := True \<rparr>"
    let ?i1 = "i \<lparr> InsertCommand.prevLine := ?t, splitLines := ?ps, InsertCommand.executed := True \<rparr>"
    have l0: "0 \<le> InsertCommand.line i - 1" using D(1) by simp
    have l1: "InsertCommand.line i - 1 < len ?L1" using D(2) by (simp add: len_def)
    have e1: "InsertCommand_Execute te i = Inr (?te1, ?i1)"
      unfolding E using True by simp
    have u1: "InsertCommand_Undo ?te1 ?i1 =
        Inr (?te1 \<lparr> TextEditor.lines := ?L1 [?li := ?t], TextEditor.isModified := True \<rparr>, ?i1)"
      unfolding InsertCommand_Undo_def using l0 l1 by (simp add: True Let_def D(3))
    show ?thesis
      unfolding Insert_then_Undo_def e1 by (simp add: bindP_def u1)
  next
    case False
    define mid where "mid = [take ?ci ?t @ hd ?ps] @ butlast (tl ?ps) @ [last ?ps @ drop ?ci ?t]"
    define L1 where "L1 = take ?li ?L @ mid @ drop (Suc ?li) ?L"
    define te1 where "te1 = te \<lparr> TextEditor.lines := L1, TextEditor.isModified := True \<rparr>"
    define i1 where "i1 = i \<lparr> InsertCommand.prevLine := ?t, splitLines := ?ps, InsertCommand.executed := True \<rparr>"
    have nl: "nat (InsertCommand.line i) = Suc ?li" using D(1) by simp
    have ml: "length mid = length ?ps"
      unfolding mid_def using False psn by (intro Split_parts_length) (simp_all add: len_def)
    have L1: "len L1 = len ?L + len ?ps - 1" using lt ml by (simp add: L1_def len_def)
    have p1: "1 \<le> len ?ps" using psn by (cases ?ps) (simp_all add: len_def)
    have c0: "0 \<le> len ?L" by (simp add: len_def)
    have e1: "InsertCommand_Execute te i = Inr (te1, i1)"
      unfolding E te1_def i1_def L1_def mid_def using False by (simp add: nl)
    have f1: "InsertCommand.executed i1" "splitLines i1 = ?ps" "InsertCommand.line i1 = InsertCommand.line i"
      "InsertCommand.prevLine i1 = ?t" "TextEditor.lines te1 = L1"
      by (simp_all add: i1_def te1_def)
    have u1: "InsertCommand_Undo te1 i1 =
      Inr (te1 \<lparr> TextEditor.lines :=
               take (nat (InsertCommand.line i1 - 1)) (TextEditor.lines te1) @ [InsertCommand.prevLine i1] @
               drop (nat (InsertCommand.line i1 + (len (splitLines i1) - 1))) (TextEditor.lines te1),
              TextEditor.isModified := True \<rparr>, i1)"
    proof (rule InsertCommand_Undo_multi)
      show "InsertCommand.executed i1" by (rule f1)
      show "len (splitLines i1) \<noteq> 1" using False by (simp add: f1)
      show "i64 (InsertCommand.line i1 - 1) = InsertCommand.line i1 - 1" using D(3) by (simp add: f1)
      show "i64 (len (splitLines i1) - 1) = len (splitLines i1) - 1"
        unfolding f1 using p1 psl m c0 by (intro i64_range_id) simp_all
      have "len (TextEditor.lines te1) - (len (splitLines i1) - 1) = len ?L" unfolding f1 using L1 by simp
      moreover have "i64 (len ?L) = len ?L" using m c0 by (intro i64_range_id) (simp_all add: len_def)
      ultimately show "0 \<le> i64 (len (TextEditor.lines te1) - (len (splitLines i1) - 1))" using c0 by simp
      show "0 \<le> InsertCommand.line i1 - 1" unfolding f1 using D(1) by simp
      show "InsertCommand.line i1 - 1 \<le> len (TextEditor.lines te1)" unfolding f1 using D(2) L1 p1 by simp
      show "i64 (InsertCommand.line i1) = InsertCommand.line i1" unfolding f1 using l by (rule i64_id)
      show "i64 (InsertCommand.line i1 + (len (splitLines i1) - 1))
               = InsertCommand.line i1 + (len (splitLines i1) - 1)"
        unfolding f1 using D(1,2) p1 psl m c0 by (intro i64_range_id) (simp_all add: len_def)
      show "0 \<le> InsertCommand.line i1 + (len (splitLines i1) - 1)" unfolding f1 using D(1) p1 by simp
      show "InsertCommand.line i1 + (len (splitLines i1) - 1) \<le> len (TextEditor.lines te1)"
        unfolding f1 using D(2) L1 p1 by simp
    qed
    have hn: "nat (InsertCommand.line i + (len ?ps - 1)) = ?li + length ?ps"
      using D(1) p1 by (simp add: len_def)
    have sp: "take ?li L1 @ [?t] @ drop (?li + length ?ps) L1 = ?L"
      unfolding L1_def using lt ml by (rule splice_undo)
    have "TextEditor.lines (te1 \<lparr> TextEditor.lines :=
               take (nat (InsertCommand.line i1 - 1)) (TextEditor.lines te1) @ [InsertCommand.prevLine i1] @
               drop (nat (InsertCommand.line i1 + (len (splitLines i1) - 1))) (TextEditor.lines te1),
              TextEditor.isModified := True \<rparr>) = ?L"
      unfolding f1 hn using sp by simp
    then show ?thesis
      unfolding Insert_then_Undo_def e1 by (simp add: bindP_def u1)
  qed
qed

lemma Insert_then_Undo_scenario:
  "map_sum id (\<lambda>(te, c). TextEditor.lines te)
     (InsertCommand_Execute \<lparr> lines = [''X''], isModified = False \<rparr>
        (NewInsertCommand 1 1 (''AB'' @ [newline] @ ''CD''))) = Inr [''AB'', ''CDX''] \<and>
   map_sum id (\<lambda>(te, c). TextEditor.lines te)
     (Insert_then_Undo \<lparr> lines = [''X''], isModified = False \<rparr>
        (NewInsertCommand 1 1 (''AB'' @ [newline] @ ''CD''))) = Inr [''X'']"
  by code_simp

text \<open>
  Claim C7.  On a buffer with at least one line the round trip holds for every accepted
  insert, with and without newlines in the text (\<open>Insert_then_Undo_nonempty\<close>, and
  \<open>Insert_then_Undo_scenario\<close> for the buffer \<open>["X"]\<close>).  On the buffer without lines the
  validation accepts line 1, column 1, and executing that insert panics: there is no
  buffer after it that an undo could restore.
\<close>

theorem Insert_then_Undo_empty_document_panics:
  "InsertCommand_validate \<lparr> lines = [], isModified = m \<rparr> (NewInsertCommand 1 1 t) \<and>
   Insert_then_Undo \<lparr> lines = [], isModified = m \<rparr> (NewInsertCommand 1 1 t)
     = Inl IndexOutOfRange"
  by (simp add: Insert_then_Undo_def InsertCommand_Execute_def InsertCommand_validate_def
      NewInsertCommand_def len_def index_at_def bindP_def i64_def)


section \<open>Properties of the XML document\<close>

text \<open>
  Claim C1.  The document does not keep a failed command off its history:
  \<^verbatim>\<open>ExecuteCommand\<close> pushes whatever it executed.  In the session below the redo stack holds
  one command; \<^verbatim>\<open>EditText\<close> on an identifier that is not indexed then fails its validation,
  and still the failed command (not executed) is the new top of the undo stack and the redo
  stack is empty.
\<close>

theorem failed_command_is_pushed:
  "(case failed_command_session of
      Inr (x2, x3) \<Rightarrow>
        idMap x2 ''nope'' = None \<and>
        length (undoStack x2) = 0 \<and> length (redoStack x2) = 1 \<and>
        map Command_IsExecuted (undoStack x3) = [False] \<and>
        length (redoStack x3) = 0
    | Inl _ \<Rightarrow> False)"
  by code_simp

text \<open>
  Claim C4.  \<^verbatim>\<open>recursiveDeleteIdMap\<close> returns on an element without identifier before it
  visits the children.  Element 1 (\<open>a\<close>) has the subtree 1, 2, 3, where 2 has no identifier
  and 3 is \<open>b\<close>; after the successful \<^verbatim>\<open>Delete("a")\<close> the tree is the root alone, and the index
  still maps \<open>b\<close> to element 3.
\<close>

theorem Delete_leaves_descendant_in_index:
  "(case delete_session of
      Inr (x0, x1) \<Rightarrow>
        treeElements x0 = [0, 1, 2, 3] \<and> indexed x0 \<and>
        map (\<lambda>a. id' (heap x0 a)) [0, 1, 2, 3] = [''root'', ''a'', [], ''b''] \<and>
        elements (depthBound x0) (heap x0) 1 = [1, 2, 3] \<and>
        map Command_IsExecuted (undoStack x1) = [True] \<and>
        treeElements x1 = [0] \<and>
        idMap x1 ''a'' = None \<and>
        idMap x1 ''b'' = Some 3
    | Inl _ \<Rightarrow> False)"
  by code_simp

text \<open>
  Claim C5.  \<^verbatim>\<open>EditIdCommand.Execute\<close> changes the identifier field and the index, not the
  attribute: after the successful \<^verbatim>\<open>EditId("k", "j")\<close> the element has the identifier \<open>j\<close>
  and the attribute \<open>id="k"\<close>.
\<close>

theorem EditId_leaves_id_attribute:
  "(case editId_session of
      Inr (x0, x1) \<Rightarrow>
        map (\<lambda>a. (id' (heap x0 a), map_of (attrs (heap x0 a)) ''id'')) (treeElements x0)
          = [(''root'', Some ''root''), (''k'', Some ''k'')] \<and>
        map Command_IsExecuted (undoStack x1) = [True] \<and>
        map (\<lambda>a. (id' (heap x1 a), map_of (attrs (heap x1 a)) ''id'')) (treeElements x1)
          = [(''root'', Some ''root''), (''j'', Some ''k'')]
    | Inl _ \<Rightarrow> False)"
  by code_simp

text \<open>
  Claim C6.  \<^verbatim>\<open>EditTextCommand.Undo\<close> returns without restoring when the saved text is
  empty.  Element 1 (\<open>k\<close>) has no text; after the successful \<^verbatim>\<open>EditText("k", "hello")\<close> and
  \<^verbatim>\<open>Undo\<close> its text is \<open>hello\<close>, and the undo stack is empty.
\<close>

theorem EditText_Undo_keeps_new_text:
  "(case editText_session of
      Inr (x0, x1, x2) \<Rightarrow>
        idMap x0 ''k'' = Some 1 \<and>
        XMLElement.text (heap x0 1) = [] \<and>
        map Command_IsExecuted (undoStack x1) = [True] \<and>
        XMLElement.text (heap x1 1) = ''hello'' \<and>
        length (undoStack x2) = 0 \<and>
        XMLElement.text (heap x2 1) = ''hello''
    | Inl _ \<Rightarrow> False)"
  by code_simp

text \<open>
  Claim C8.  The document starts with the distinct identifiers \<open>root\<close> and \<open>k\<close>, all indexed.
  \<^verbatim>\<open>EditId("k", "j")\<close>, \<^verbatim>\<open>AppendChild("n", "", "root", "")\<close> and \<^verbatim>\<open>EditId("", "k")\<close> all
  succeed and leave the distinct identifiers \<open>root\<close>, \<open>j\<close>, \<open>k\<close>.  The three undos then leave
  two elements of the tree with the identifier \<open>k\<close>: the undo of the last rename does nothing
  (the saved identifier is empty), the undo of the append finds no child with an empty
  identifier, and the undo of the first rename gives \<open>k\<close> back to the first element.
\<close>

theorem Undo_sequence_duplicates_identifier:
  "(case rename_session of
      Inr (x0, x3, x6) \<Rightarrow>
        treeIds x0 = [''root'', ''k''] \<and> indexed x0 \<and>
        map Command_IsExecuted (undoStack x3) = [True, True, True] \<and>
        treeIds x3 = [''root'', ''j'', ''k''] \<and>
        length (undoStack x6) = 0 \<and>
        treeElements x6 = [0, 1, 2] \<and>
        treeIds x6 = [''root'', ''k'', ''k''] \<and>
        \<not> distinct (treeIds x6)
    | Inl _ \<Rightarrow> False)"
  by code_simp











end
